theory Spec2Isabelle
  imports Complex_Main "HOL-Library.AList"
begin

section \<open>JavaScript values\<close>

text \<open>
  The values that travel through \<^verbatim>\<open>server.js\<close>: request bodies parsed by
  \<^verbatim>\<open>express.json()\<close>, token payloads and the fields of the documents kept in
  the \<^verbatim>\<open>users\<close> collection. An object is the list of its properties. Arrays
  play no part in the handlers and are not modelled. Times are integers, the
  milliseconds since the epoch that \<^verbatim>\<open>Date.now()\<close> returns.
\<close>

datatype jsval =
    JUndefined
  | JNull
  | JBool bool
  | JNum rat
  | JStr string
  | JObj "(string \<times> jsval) list"

type_synonym obj = "(string \<times> jsval) list"

text \<open>\<^verbatim>\<open>!!v\<close>: what an \<^verbatim>\<open>if (v)\<close>, \<^verbatim>\<open>!v\<close> or \<^verbatim>\<open>v || w\<close> tests.\<close>

fun truthy :: "jsval \<Rightarrow> bool" where
  "truthy JUndefined = False"
| "truthy JNull = False"
| "truthy (JBool b) = b"
| "truthy (JNum q) = (q \<noteq> 0)"
| "truthy (JStr s) = (s \<noteq> [])"
| "truthy (JObj fs) = True"

text \<open>\<^verbatim>\<open>a || b\<close>\<close>

definition js_or :: "jsval \<Rightarrow> jsval \<Rightarrow> jsval" where
  "js_or a b = (if truthy a then a else b)"

text \<open>\<^verbatim>\<open>o.k\<close> on an object literal or a parsed JSON object: a missing property reads
  as \<^verbatim>\<open>undefined\<close>.\<close>

definition js_prop :: "obj \<Rightarrow> string \<Rightarrow> jsval" where
  "js_prop ob k = (case map_of ob k of None \<Rightarrow> JUndefined | Some v \<Rightarrow> v)"

text \<open>\<^verbatim>\<open>v.k\<close> on a value read back from a document: reading a property of
  \<^verbatim>\<open>undefined\<close> or \<^verbatim>\<open>null\<close> throws a TypeError (\<open>None\<close>); a primitive has
  none of the properties the handlers read.\<close>

fun get_prop :: "jsval \<Rightarrow> string \<Rightarrow> jsval option" where
  "get_prop (JObj fs) k = Some (js_prop fs k)"
| "get_prop JUndefined k = None"
| "get_prop JNull k = None"
| "get_prop v k = Some JUndefined"

text \<open>\<^verbatim>\<open>s.split(c)\<close> for a one-character separator: every occurrence cuts, so two
  separators in a row give an empty piece.\<close>

fun split_on :: "char \<Rightarrow> string \<Rightarrow> string list" where
  "split_on c [] = [[]]"
| "split_on c (x # xs) =
     (if x = c then [] # split_on c xs
      else (case split_on c xs of
              [] \<Rightarrow> [[x]]
            | w # ws \<Rightarrow> (x # w) # ws))"

text \<open>\<^verbatim>\<open>xs[i]\<close>: \<^verbatim>\<open>undefined\<close> (\<open>None\<close>) past the end.\<close>

definition at_index :: "'a list \<Rightarrow> nat \<Rightarrow> 'a option" where
  "at_index xs i = (if i < length xs then Some (xs ! i) else None)"


section \<open>Responses\<close>

text \<open>\<^verbatim>\<open>res.status(c).json(o)\<close>; \<^verbatim>\<open>res.json(o)\<close> answers with status 200.\<close>

record response =
  code :: nat
  payload :: obj

definition json_error :: "nat \<Rightarrow> string \<Rightarrow> response" where
  "json_error c msg = \<lparr>code = c, payload = [(''error'', JStr msg)]\<rparr>"


section \<open>The JWT middleware\<close>

text \<open>
  \<^verbatim>\<open>jwt.verify(token, process.env.JWT_SECRET, callback)\<close> belongs to the
  \<^verbatim>\<open>jsonwebtoken\<close> package; the middleware takes it as the parameter
  \<open>jwt_verify\<close>, which maps the token string either to the error the callback
  receives or to the two properties of the decoded payload that the middleware reads.
\<close>

datatype jwt_error = InvalidToken

record decoded =
  d_uid :: jsval
  d_email :: jsval

record req_user =
  uid :: jsval
  email :: jsval

datatype auth_result = Rejected response | Next req_user

text \<open>\<^verbatim>\<open>authHeader && authHeader.split(" ")[1]\<close>: \<open>None\<close> is \<^verbatim>\<open>undefined\<close>; an
  empty header is falsy and is itself the value of the conjunction.\<close>

definition bearer_token :: "string option \<Rightarrow> string option" where
  "bearer_token authHeader =
     (case authHeader of
        None \<Rightarrow> None
      | Some h \<Rightarrow> if h = [] then Some [] else at_index (split_on CHR '' '' h) 1)"

definition authenticateToken ::
  "(string \<Rightarrow> jwt_error + decoded) \<Rightarrow> string option \<Rightarrow> auth_result" where
  "authenticateToken jwt_verify authHeader =
     (case bearer_token authHeader of
        None \<Rightarrow> Rejected (json_error 401 ''Access token required'')
      | Some token \<Rightarrow>
          if token = [] then Rejected (json_error 401 ''Access token required'')
          else (case jwt_verify token of
                  Inl err \<Rightarrow> Rejected (json_error 403 ''Invalid or expired token'')
                | Inr dec \<Rightarrow> Next \<lparr>uid = d_uid dec, email = d_email dec\<rparr>))"


section \<open>The \<^verbatim>\<open>users\<close> collection\<close>

text \<open>
  The document database is reached through \<^verbatim>\<open>db.collection("users").doc(id)\<close>
  of the \<^verbatim>\<open>firebase-admin\<close> package. The collection is a finite map from
  document ids to documents, a document being the list of its top-level fields. The
  store takes every document it is given and answers every call: the limits the
  database puts on a document (its size, its depth) and a database that cannot be
  reached are outside this model.
\<close>

type_synonym store = "string \<rightharpoonup> obj"

datatype store_error = NotFound

text \<open>
  \<^verbatim>\<open>.doc(id)\<close>: the client throws unless \<open>id\<close> is a non-empty string. An id with
  a slash is a path below \<^verbatim>\<open>users\<close>, not a key of the collection; such ids
  are outside this model and are treated like a rejected id.
\<close>

fun doc_ref :: "jsval \<Rightarrow> string option" where
  "doc_ref (JStr s) = (if s = [] \<or> CHR ''/'' \<in> set s then None else Some s)"
| "doc_ref v = None"

text \<open>Modelled from the spec: \<open>UserStore.get\<close> (\<^verbatim>\<open>.get()\<close> of the Firestore client,
  whose code is not under src/): the stored document, or none.\<close>

definition doc_get :: "store \<Rightarrow> string \<Rightarrow> obj option" where
  "doc_get db k = db k"

text \<open>Modelled from the spec: the unconditional write \<^verbatim>\<open>.set(data)\<close> of the Firestore
  client, whose code is not under src/: the document becomes \<open>data\<close>, whatever was
  stored before.\<close>

definition doc_set :: "store \<Rightarrow> string \<Rightarrow> obj \<Rightarrow> store" where
  "doc_set db k d = db(k \<mapsto> d)"

text \<open>Modelled from the spec: \<open>UserStore.update\<close> (\<^verbatim>\<open>.update(data)\<close> of the Firestore
  client, whose code is not under src/): fails with \<open>NotFound\<close> when no document is
  stored; otherwise the supplied top-level fields replace the stored ones and every other
  field stays.\<close>

definition doc_update :: "store \<Rightarrow> string \<Rightarrow> obj \<Rightarrow> store_error + store" where
  "doc_update db k upd =
     (case db k of
        None \<Rightarrow> Inl NotFound
      | Some d \<Rightarrow> Inr (db(k \<mapsto> AList.merge d upd)))"


section \<open>POST /api/user/create\<close>

text \<open>
  \<open>toISOString\<close> is JavaScript's \<^verbatim>\<open>Date.prototype.toISOString\<close>, a parameter of
  every handler that stores a time. The create handler reads the clock twice:
  \<open>now\<close> is \<^verbatim>\<open>new Date()\<close>, \<open>now'\<close> the later \<^verbatim>\<open>Date.now()\<close> inside the
  trial branch.
\<close>

definition newUserData ::
  "(int \<Rightarrow> string) \<Rightarrow> req_user \<Rightarrow> jsval \<Rightarrow> int \<Rightarrow> int \<Rightarrow> obj" where
  "newUserData toISOString user planType now now' =
     (let subscriptionEnd =
            (if planType = JStr ''trial'' then Some (now' + 7 * 24 * 60 * 60 * 1000)
             else None)
      in [(''uid'', uid user),
          (''email'', email user),
          (''displayName'', JNull),
          (''photoURL'', JNull),
          (''plan'', JObj
             [(''type'', planType),
              (''status'', JStr ''active''),
              (''subscriptionStart'', JStr (toISOString now)),
              (''subscriptionEnd'',
                 (case subscriptionEnd of
                    Some e \<Rightarrow> JStr (toISOString e)
                  | None \<Rightarrow> JNull)),
              (''lastUpdated'', JStr (toISOString now))]),
          (''createdAt'', JStr (toISOString now)),
          (''lastLogin'', JStr (toISOString now))])"

text \<open>\<^verbatim>\<open>const { planType = "trial" } = req.body\<close>: the default applies to a missing
  property only.\<close>

definition create_planType :: "obj \<Rightarrow> jsval" where
  "create_planType body =
     (let p = js_prop body ''planType'' in if p = JUndefined then JStr ''trial'' else p)"

definition created :: "obj \<Rightarrow> response" where
  "created d =
     \<lparr>code = 201,
      payload = [(''message'', JStr ''User created successfully''), (''user'', JObj d)]\<rparr>"

definition post_create ::
  "(int \<Rightarrow> string) \<Rightarrow> store \<Rightarrow> req_user \<Rightarrow> obj \<Rightarrow> int \<Rightarrow> int \<Rightarrow> store \<times> response" where
  "post_create toISOString db user body now now' =
     (let planType = create_planType body in
      case doc_ref (uid user) of
        None \<Rightarrow> (db, json_error 500 ''Failed to create user'')
      | Some k \<Rightarrow>
          (case doc_get db k of
             Some existingUser \<Rightarrow> (db, json_error 409 ''User already exists'')
           | None \<Rightarrow>
               (let d = newUserData toISOString user planType now now'
                in (doc_set db k d, created d))))"


section \<open>PUT /api/user/plan\<close>

definition validPlans :: "jsval list" where
  "validPlans = [JStr ''free'', JStr ''trial'', JStr ''pro'', JStr ''plus'']"

definition updatedPlan :: "(int \<Rightarrow> string) \<Rightarrow> obj \<Rightarrow> int \<Rightarrow> obj" where
  "updatedPlan toISOString body now =
     [(''type'', js_prop body ''planType''),
      (''status'', JStr ''active''),
      (''subscriptionStart'', JStr (toISOString now)),
      (''subscriptionEnd'', js_or (js_prop body ''subscriptionEnd'') JNull),
      (''stripeCustomerId'', js_or (js_prop body ''stripeCustomerId'') JNull),
      (''lastUpdated'', JStr (toISOString now))]"

definition put_plan ::
  "(int \<Rightarrow> string) \<Rightarrow> store \<Rightarrow> req_user \<Rightarrow> obj \<Rightarrow> int \<Rightarrow> store \<times> response" where
  "put_plan toISOString db user body now =
     (if js_prop body ''planType'' \<notin> set validPlans
      then (db, json_error 400 ''Invalid plan type'')
      else
        (let plan = updatedPlan toISOString body now in
         case doc_ref (uid user) of
           None \<Rightarrow> (db, json_error 500 ''Failed to update plan'')
         | Some k \<Rightarrow>
             (case doc_update db k
                     [(''plan'', JObj plan), (''lastLogin'', JStr (toISOString now))] of
                Inl err \<Rightarrow> (db, json_error 500 ''Failed to update plan'')
              | Inr db' \<Rightarrow>
                  (db', \<lparr>code = 200,
                         payload = [(''message'', JStr ''Plan updated successfully''),
                                    (''plan'', JObj plan)]\<rparr>))))"


section \<open>PUT /api/user/profile\<close>

definition profile_updates :: "(int \<Rightarrow> string) \<Rightarrow> obj \<Rightarrow> int \<Rightarrow> obj" where
  "profile_updates toISOString body now =
     (let displayName = js_prop body ''displayName'';
          photoURL = js_prop body ''photoURL'';
          updates = [(''lastLogin'', JStr (toISOString now))];
          updates = (if displayName \<noteq> JUndefined
                     then AList.update ''displayName'' displayName updates else updates);
          updates = (if photoURL \<noteq> JUndefined
                     then AList.update ''photoURL'' photoURL updates else updates)
      in updates)"

definition put_profile ::
  "(int \<Rightarrow> string) \<Rightarrow> store \<Rightarrow> req_user \<Rightarrow> obj \<Rightarrow> int \<Rightarrow> store \<times> response" where
  "put_profile toISOString db user body now =
     (let updates = profile_updates toISOString body now in
      case doc_ref (uid user) of
        None \<Rightarrow> (db, json_error 500 ''Failed to update profile'')
      | Some k \<Rightarrow>
          (case doc_update db k updates of
             Inl err \<Rightarrow> (db, json_error 500 ''Failed to update profile'')
           | Inr db' \<Rightarrow>
               (db', \<lparr>code = 200,
                      payload = [(''message'', JStr ''Profile updated successfully'')]\<rparr>)))"


section \<open>GET /api/user/stats\<close>

text \<open>
  \<open>dateValue v\<close> is \<^verbatim>\<open>new Date(v).getTime()\<close>, a parameter: \<open>None\<close> is the
  \<^verbatim>\<open>NaN\<close> of an invalid date. The handler reads the clock twice: \<open>now\<close> is the
  \<^verbatim>\<open>Date.now()\<close> of the days computation, \<open>now'\<close> the \<^verbatim>\<open>new Date()\<close> of the
  expiry test. Times in milliseconds are integers that the doubles of JavaScript hold
  exactly, and the rounding of their quotient by the length of a day is too small to
  reach the next integer, so the arithmetic is done in \<open>int\<close> and \<open>real\<close>. The
  payload keeps a property whose value is \<^verbatim>\<open>undefined\<close>; \<^verbatim>\<open>res.json\<close> leaves
  it out.
\<close>

datatype days = DaysNull | DaysNaN | Days int

definition daysRemaining :: "(jsval \<Rightarrow> int option) \<Rightarrow> jsval \<Rightarrow> int \<Rightarrow> days" where
  "daysRemaining dateValue subscriptionEnd now =
     (if truthy subscriptionEnd
      then (case dateValue subscriptionEnd of
              None \<Rightarrow> DaysNaN
            | Some e \<Rightarrow>
                (let msRemaining = e - now
                 in Days (max 0 \<lceil>real_of_int msRemaining / (1000 * 60 * 60 * 24)\<rceil>)))
      else DaysNull)"

text \<open>\<^verbatim>\<open>new Date() > new Date(plan.subscriptionEnd)\<close>: a comparison with
  \<^verbatim>\<open>NaN\<close> is false.\<close>

definition isExpired :: "(jsval \<Rightarrow> int option) \<Rightarrow> jsval \<Rightarrow> int \<Rightarrow> bool" where
  "isExpired dateValue subscriptionEnd now' =
     (if truthy subscriptionEnd
      then (case dateValue subscriptionEnd of
              None \<Rightarrow> False
            | Some e \<Rightarrow> now' > e)
      else False)"

text \<open>\<^verbatim>\<open>res.json\<close> writes \<^verbatim>\<open>NaN\<close> as \<^verbatim>\<open>null\<close>.\<close>

fun days_json :: "days \<Rightarrow> jsval" where
  "days_json DaysNull = JNull"
| "days_json DaysNaN = JNull"
| "days_json (Days n) = JNum (of_int n)"

definition get_stats ::
  "(jsval \<Rightarrow> int option) \<Rightarrow> store \<Rightarrow> req_user \<Rightarrow> int \<Rightarrow> int \<Rightarrow> response" where
  "get_stats dateValue db user now now' =
     (case doc_ref (uid user) of
        None \<Rightarrow> json_error 500 ''Failed to get user stats''
      | Some k \<Rightarrow>
          (case doc_get db k of
             None \<Rightarrow> json_error 404 ''User not found''
           | Some userData \<Rightarrow>
               (let plan = js_prop userData ''plan'' in
                case get_prop plan ''subscriptionEnd'' of
                  None \<Rightarrow> json_error 500 ''Failed to get user stats''
                | Some subscriptionEnd \<Rightarrow>
                    (case get_prop plan ''type'' of
                       None \<Rightarrow> json_error 500 ''Failed to get user stats''
                     | Some planType \<Rightarrow>
                         (case get_prop plan ''status'' of
                            None \<Rightarrow> json_error 500 ''Failed to get user stats''
                          | Some planStatus \<Rightarrow>
                              \<lparr>code = 200,
                               payload =
                                 [(''planType'', planType),
                                  (''planStatus'', planStatus),
                                  (''daysRemaining'',
                                     days_json (daysRemaining dateValue subscriptionEnd now)),
                                  (''isExpired'',
                                     JBool (isExpired dateValue subscriptionEnd now')),
                                  (''memberSince'', js_prop userData ''createdAt'')]\<rparr>)))))"


section \<open>Protected routes\<close>

text \<open>\<^verbatim>\<open>app.METHOD(path, authenticateToken, handler)\<close>: the handler runs only when the
  middleware calls \<^verbatim>\<open>next()\<close>.\<close>

definition protected ::
  "(string \<Rightarrow> jwt_error + decoded) \<Rightarrow> (store \<Rightarrow> req_user \<Rightarrow> store \<times> response) \<Rightarrow>
     store \<Rightarrow> string option \<Rightarrow> store \<times> response" where
  "protected jwt_verify handler db authHeader =
     (case authenticateToken jwt_verify authHeader of
        Rejected r \<Rightarrow> (db, r)
      | Next user \<Rightarrow> handler db user)"


section \<open>The token codec and POST /api/auth/generate-token\<close>

text \<open>
  \<^verbatim>\<open>jwt.sign\<close> and \<^verbatim>\<open>jwt.verify\<close> are the \<^verbatim>\<open>jsonwebtoken\<close> package, whose code
  is not under src/. A token is the signed bundle of the spec; \<open>mac\<close>, the keyed
  signature function, is a parameter.
\<close>

record 's token =
  t_uid :: jsval
  t_email :: jsval
  issuedAt :: int
  expiresAt :: int
  signature :: 's

text \<open>Modelled from the spec: \<open>TokenCodec.issue\<close> (\<^verbatim>\<open>jwt.sign\<close>, not under src/):
  a signed token embedding subjectId, email, issuedAt = now, expiresAt = now + ttl.\<close>

definition issue ::
  "('k \<Rightarrow> jsval \<times> jsval \<times> int \<times> int \<Rightarrow> 's) \<Rightarrow> 'k \<Rightarrow> jsval \<Rightarrow> jsval \<Rightarrow> int \<Rightarrow> int \<Rightarrow> 's token" where
  "issue mac secret subjectId mail now ttl =
     \<lparr>t_uid = subjectId, t_email = mail, issuedAt = now, expiresAt = now + ttl,
      signature = mac secret (subjectId, mail, now, now + ttl)\<rparr>"

text \<open>Modelled from the spec: \<open>TokenCodec.verify\<close> (\<^verbatim>\<open>jwt.verify\<close>, not under src/):
  fails if the signature is invalid or expiresAt <= now; otherwise the identity.\<close>

definition verify ::
  "('k \<Rightarrow> jsval \<times> jsval \<times> int \<times> int \<Rightarrow> 's) \<Rightarrow> 'k \<Rightarrow> int \<Rightarrow> 's token \<Rightarrow> jwt_error + decoded" where
  "verify mac secret now t =
     (if signature t \<noteq> mac secret (t_uid t, t_email t, issuedAt t, expiresAt t)
      then Inl InvalidToken
      else if expiresAt t \<le> now then Inl InvalidToken
      else Inr \<lparr>d_uid = t_uid t, d_email = t_email t\<rparr>)"

text \<open>Modelled from the spec: \<open>TokenCodec.verify\<close> on the string of the header: a string
  that is no token (\<open>parse\<close>, a parameter, gives \<open>None\<close>) is malformed and fails.\<close>

definition verify_string ::
  "(string \<Rightarrow> 's token option) \<Rightarrow> ('k \<Rightarrow> jsval \<times> jsval \<times> int \<times> int \<Rightarrow> 's) \<Rightarrow> 'k \<Rightarrow> int \<Rightarrow>
     string \<Rightarrow> jwt_error + decoded" where
  "verify_string parse mac secret now s =
     (case parse s of
        None \<Rightarrow> Inl InvalidToken
      | Some t \<Rightarrow> verify mac secret now t)"

datatype 's gen_result = GenRejected response | GenToken "'s token"

text \<open>\<^verbatim>\<open>expiresIn: "7d"\<close>\<close>

definition expiresIn :: int where
  "expiresIn = 7 * 24 * 60 * 60 * 1000"

definition generate_token ::
  "('k \<Rightarrow> jsval \<times> jsval \<times> int \<times> int \<Rightarrow> 's) \<Rightarrow> 'k \<Rightarrow> obj \<Rightarrow> int \<Rightarrow> 's gen_result" where
  "generate_token mac secret body now =
     (let uid = js_prop body ''uid''; email = js_prop body ''email'' in
      if \<not> truthy uid \<or> \<not> truthy email
      then GenRejected (json_error 400 ''Missing required user data'')
      else GenToken (issue mac secret uid email now expiresIn))"


section \<open>Create requests in flight together\<close>

text \<open>
  The create handler gives the event loop back at its two \<^verbatim>\<open>await\<close>s, the read
  \<^verbatim>\<open>.get()\<close> and the write \<^verbatim>\<open>.set(newUserData)\<close>; what lies between runs without
  interruption. A request is therefore a task of two steps, and a schedule names the
  task that takes the next step.
\<close>

record create_request =
  cr_user :: req_user
  cr_body :: obj
  cr_now :: int
  cr_now2 :: int

datatype create_task =
    AwaitingGet create_request
  | AwaitingSet string obj
  | Responded response

fun create_step :: "(int \<Rightarrow> string) \<Rightarrow> store \<Rightarrow> create_task \<Rightarrow> store \<times> create_task" where
  "create_step toISOString db (AwaitingGet r) =
     (case doc_ref (uid (cr_user r)) of
        None \<Rightarrow> (db, Responded (json_error 500 ''Failed to create user''))
      | Some k \<Rightarrow>
          (case doc_get db k of
             Some existingUser \<Rightarrow> (db, Responded (json_error 409 ''User already exists''))
           | None \<Rightarrow>
               (db, AwaitingSet k
                      (newUserData toISOString (cr_user r) (create_planType (cr_body r))
                         (cr_now r) (cr_now2 r)))))"
| "create_step toISOString db (AwaitingSet k d) = (doc_set db k d, Responded (created d))"
| "create_step toISOString db (Responded r) = (db, Responded r)"

fun run_schedule ::
  "(int \<Rightarrow> string) \<Rightarrow> nat list \<Rightarrow> store \<times> create_task list \<Rightarrow> store \<times> create_task list" where
  "run_schedule toISOString [] st = st"
| "run_schedule toISOString (i # sched) (db, ts) =
     (if i < length ts
      then (case create_step toISOString db (ts ! i) of
              (db', t') \<Rightarrow> run_schedule toISOString sched (db', ts[i := t']))
      else run_schedule toISOString sched (db, ts))"

fun status_of :: "create_task \<Rightarrow> nat option" where
  "status_of (Responded r) = Some (code r)"
| "status_of t = None"


section \<open>Example data\<close>

text \<open>
  Concrete instants, a user and a stored document, on which the properties below are
  evaluated. \<open>toISOString_ex\<close> and \<open>dateValue_ex\<close> are \<^verbatim>\<open>toISOString\<close> and
  \<^verbatim>\<open>new Date(s).getTime()\<close> on the instants of \<open>iso_table\<close>.
\<close>

definition iso_table :: "(int \<times> string) list" where
  "iso_table =
     [(0, ''1970-01-01T00:00:00.000Z''),
      (1000, ''1970-01-01T00:00:01.000Z''),
      (1800000, ''1970-01-01T00:30:00.000Z''),
      (604800000, ''1970-01-08T00:00:00.000Z''),
      (604801000, ''1970-01-08T00:00:01.000Z'')]"

definition toISOString_ex :: "int \<Rightarrow> string" where
  "toISOString_ex t = (case map_of iso_table t of Some s \<Rightarrow> s | None \<Rightarrow> ''not in the table'')"

fun dateValue_ex :: "jsval \<Rightarrow> int option" where
  "dateValue_ex (JStr s) = map_of (map (\<lambda>(t, s). (s, t)) iso_table) s"
| "dateValue_ex v = None"

definition user_ex :: req_user where
  "user_ex = \<lparr>uid = JStr ''u1'', email = JStr ''a@x.com''\<rparr>"

text \<open>The collection after \<open>user_ex\<close> was created with the trial plan at instant 0.\<close>

definition db_ex :: store where
  "db_ex = Map.empty(''u1'' \<mapsto> newUserData toISOString_ex user_ex (JStr ''trial'') 0 0)"

text \<open>Two stand-ins for \<^verbatim>\<open>jwt.verify\<close>: one refuses every token, one accepts the
  token \<^verbatim>\<open>good\<close> only.\<close>

definition reject_all :: "string \<Rightarrow> jwt_error + decoded" where
  "reject_all token = Inl InvalidToken"

definition accept_good :: "string \<Rightarrow> jwt_error + decoded" where
  "accept_good token =
     (if token = ''good'' then Inr \<lparr>d_uid = JStr ''u1'', d_email = JStr ''a@x.com''\<rparr>
      else Inl InvalidToken)"

text \<open>The header form of the spec, \<^verbatim>\<open>Authorization: Bearer <token>\<close>: a header with
  any other beginning has a malformed scheme.\<close>

definition bearer_scheme :: "string \<Rightarrow> bool" where
  "bearer_scheme h = (take 7 h = ''Bearer '' \<and> 7 < length h)"

text \<open>Two create requests of the same user, one for the trial plan and one for
  \<^verbatim>\<open>pro\<close>.\<close>

definition request_A :: create_request where
  "request_A = \<lparr>cr_user = user_ex, cr_body = [(''planType'', JStr ''trial'')],
                cr_now = 0, cr_now2 = 0\<rparr>"

definition request_B :: create_request where
  "request_B = \<lparr>cr_user = user_ex, cr_body = [(''planType'', JStr ''pro'')],
                cr_now = 1000, cr_now2 = 1000\<rparr>"

text \<open>A signature function and a token parser for the examples: the signature is the
  secret paired with the signed fields, and \<^verbatim>\<open>tok\<close> is the string of one
  token.\<close>

definition mac_ex ::
  "string \<Rightarrow> jsval \<times> jsval \<times> int \<times> int \<Rightarrow> string \<times> jsval \<times> jsval \<times> int \<times> int" where
  "mac_ex secret p = (secret, p)"

definition parse_ex ::
  "string \<Rightarrow> (string \<times> jsval \<times> jsval \<times> int \<times> int) token option" where
  "parse_ex s =
     (if s = ''tok''
      then Some (issue mac_ex ''secret'' (JStr ''u1'') (JStr ''a@x.com'') 0 expiresIn)
      else None)"

text \<open>A handler behind the middleware, for the examples: a profile update at instant
  1000.\<close>

definition handler_ex :: "store \<Rightarrow> req_user \<Rightarrow> store \<times> response" where
  "handler_ex db user =
     put_profile toISOString_ex db user [(''displayName'', JStr ''Ann'')] 1000"


section \<open>Auxiliary facts\<close>

lemma split_on_nonempty: "split_on c s \<noteq> []"
  by (induction s) (auto split: list.splits)

lemma split_on_no_sep: "c \<notin> set s \<Longrightarrow> split_on c s = [s]"
  by (induction s) auto

lemma split_on_append: "c \<notin> set w \<Longrightarrow> split_on c (w @ c # rest) = w # split_on c rest"
  by (induction w) auto

lemma hd_split_on: "hd (split_on c s) = takeWhile (\<lambda>x. x \<noteq> c) s"
  using split_on_nonempty by (induction s) (auto split: list.splits)

lemma bearer_token_no_space:
  "CHR '' '' \<notin> set h \<Longrightarrow> bearer_token (Some h) = (if h = [] then Some [] else None)"
  by (simp add: bearer_token_def at_index_def split_on_no_sep)

lemma bearer_token_second:
  "CHR '' '' \<notin> set w \<Longrightarrow>
   bearer_token (Some (w @ CHR '' '' # rest)) = Some (takeWhile (\<lambda>x. x \<noteq> CHR '' '') rest)"
  using split_on_nonempty [of "CHR '' ''" rest] hd_split_on [of "CHR '' ''" rest]
  by (cases "split_on CHR '' '' rest")
     (auto simp add: bearer_token_def at_index_def split_on_append)

lemma ceiling_ms_days:
  "\<lceil>real_of_int m / 86400000\<rceil> = - ((- m) div 86400000)"
proof -
  have "real_of_int m / 86400000 = - (real_of_int (- m) / real_of_int 86400000)"
    by simp
  then have "\<lceil>real_of_int m / 86400000\<rceil> = - \<lfloor>real_of_int (- m) / real_of_int 86400000\<rfloor>"
    by (simp only: ceiling_def minus_minus)
  then show ?thesis
    by (simp only: floor_divide_of_int_eq)
qed

lemma daysRemaining_int:
  assumes "truthy v" and "dateValue v = Some e"
  shows "daysRemaining dateValue v now = Days (max 0 (- ((- (e - now)) div 86400000)))"
proof -
  have "daysRemaining dateValue v now = Days (max 0 \<lceil>real_of_int (e - now) / 86400000\<rceil>)"
    using assms by (simp add: daysRemaining_def Let_def)
  then show ?thesis
    by (simp only: ceiling_ms_days)
qed

lemma js_prop_merge:
  "js_prop (AList.merge d upd) k = (case map_of upd k of Some v \<Rightarrow> v | None \<Rightarrow> js_prop d k)"
  by (simp add: js_prop_def merge_conv' map_add_def split: option.splits)

lemma map_of_merge:
  "map_of (AList.merge d upd) k =
     (case map_of upd k of Some v \<Rightarrow> Some v | None \<Rightarrow> map_of d k)"
  by (simp add: merge_conv' map_add_def split: option.splits)

lemma map_of_profile_updates:
  "map_of (profile_updates toISOString body now) fld =
     (if fld = ''photoURL'' \<and> js_prop body ''photoURL'' \<noteq> JUndefined
        then Some (js_prop body ''photoURL'')
      else if fld = ''displayName'' \<and> js_prop body ''displayName'' \<noteq> JUndefined
        then Some (js_prop body ''displayName'')
      else if fld = ''lastLogin'' then Some (JStr (toISOString now))
      else None)"
  by (simp add: profile_updates_def Let_def update_conv')

lemma put_plan_success:
  assumes "js_prop body ''planType'' \<in> set validPlans"
    and "doc_ref (uid user) = Some k" and "db k = Some d"
  shows "put_plan toISOString db user body now =
      (db(k \<mapsto> AList.merge d [(''plan'', JObj (updatedPlan toISOString body now)),
                                (''lastLogin'', JStr (toISOString now))]),
       \<lparr>code = 200,
        payload = [(''message'', JStr ''Plan updated successfully''),
                   (''plan'', JObj (updatedPlan toISOString body now))]\<rparr>)"
  using assms by (simp add: put_plan_def doc_update_def Let_def del: merge_simps)

lemma put_plan_missing:
  assumes "js_prop body ''planType'' \<in> set validPlans"
    and "doc_ref (uid user) = Some k" and "db k = None"
  shows "put_plan toISOString db user body now = (db, json_error 500 ''Failed to update plan'')"
  using assms by (simp add: put_plan_def doc_update_def Let_def)

lemma put_profile_success:
  assumes "doc_ref (uid user) = Some k" and "db k = Some d"
  shows "put_profile toISOString db user body now =
      (db(k \<mapsto> AList.merge d (profile_updates toISOString body now)),
       \<lparr>code = 200, payload = [(''message'', JStr ''Profile updated successfully'')]\<rparr>)"
  using assms by (simp add: put_profile_def doc_update_def Let_def del: merge_simps)

lemma put_profile_missing:
  assumes "doc_ref (uid user) = Some k" and "db k = None"
  shows "put_profile toISOString db user body now =
      (db, json_error 500 ''Failed to update profile'')"
  using assms by (simp add: put_profile_def doc_update_def Let_def)

lemma get_stats_payload:
  assumes "doc_ref (uid user) = Some k" and "db k = Some userData"
    and "js_prop userData ''plan'' = JObj plan"
  shows "get_stats dateValue db user now now' =
      \<lparr>code = 200,
       payload =
         [(''planType'', js_prop plan ''type''),
          (''planStatus'', js_prop plan ''status''),
          (''daysRemaining'',
             days_json (daysRemaining dateValue (js_prop plan ''subscriptionEnd'') now)),
          (''isExpired'', JBool (isExpired dateValue (js_prop plan ''subscriptionEnd'') now')),
          (''memberSince'', js_prop userData ''createdAt'')]\<rparr>"
  using assms by (simp add: get_stats_def doc_get_def Let_def)

lemma verify_issue:
  "t < now + ttl \<Longrightarrow>
   verify mac secret t (issue mac secret u m now ttl) = Inr \<lparr>d_uid = u, d_email = m\<rparr>"
  by (simp add: verify_def issue_def)

lemma db_ex_u1:
  "db_ex ''u1'' = Some (newUserData toISOString_ex user_ex (JStr ''trial'') 0 0)"
  by (simp add: db_ex_def)

lemma plan_of_db_ex:
  "js_prop (newUserData toISOString_ex user_ex (JStr ''trial'') 0 0) ''plan'' =
     JObj [(''type'', JStr ''trial''),
           (''status'', JStr ''active''),
           (''subscriptionStart'', JStr ''1970-01-01T00:00:00.000Z''),
           (''subscriptionEnd'', JStr ''1970-01-08T00:00:00.000Z''),
           (''lastUpdated'', JStr ''1970-01-01T00:00:00.000Z'')]"
  by (simp add: newUserData_def js_prop_def toISOString_ex_def iso_table_def)

text \<open>The two steps of a create task, taken one after the other with nothing in
  between, are the handler.\<close>

lemma post_create_as_steps:
  "run_schedule toISOString [0, 0]
     (db, [AwaitingGet \<lparr>cr_user = user, cr_body = body, cr_now = now, cr_now2 = now'\<rparr>]) =
   (case post_create toISOString db user body now now' of (db', r) \<Rightarrow> (db', [Responded r]))"
  by (simp add: post_create_def Let_def split: option.splits)

text \<open>A create call for a stored user is refused with 409 and writes nothing.\<close>

lemma create_existing_conflict:
  "doc_ref (uid user) = Some k \<Longrightarrow> db k = Some d \<Longrightarrow>
   post_create toISOString db user body now now' = (db, json_error 409 ''User already exists'')"
  by (simp add: post_create_def doc_get_def Let_def)


section \<open>Creating a user\<close>

text \<open>
  C1. A create call for a stored user fails with 409 and overwrites nothing (lemma
  \<open>create_existing_conflict\<close>), but two create calls in flight together are not
  kept apart: when both reads are served before either write, as in the schedule
  \<open>[0, 1, 0, 1]\<close>, both requests are answered 201 and the document of the second
  writer replaces the one the first writer was told it had created.
\<close>

theorem create_race_both_succeed:
  "map status_of (snd (run_schedule toISOString_ex [0, 1, 0, 1]
       (Map.empty, [AwaitingGet request_A, AwaitingGet request_B]))) = [Some 201, Some 201] \<and>
   fst (run_schedule toISOString_ex [0, 1, 0, 1]
       (Map.empty, [AwaitingGet request_A, AwaitingGet request_B])) ''u1'' =
     Some (newUserData toISOString_ex user_ex (JStr ''pro'') 1000 1000)"
  by (simp add: request_A_def request_B_def user_ex_def doc_get_def doc_set_def created_def
      create_planType_def js_prop_def)


section \<open>The authentication gate\<close>

text \<open>
  C2, as claimed, fails: the middleware never looks at the scheme word. A header
  \<^verbatim>\<open>Basic abc\<close> has a malformed scheme, yet its second word is handed to the
  verifier, whose refusal is answered 403, not 401.
\<close>

theorem scheme_not_checked_counterexample:
  "\<not> bearer_scheme ''Basic abc'' \<and>
   authenticateToken reject_all (Some ''Basic abc'') =
     Rejected (json_error 403 ''Invalid or expired token'') \<and>
   authenticateToken reject_all (Some ''Basic abc'') \<noteq>
     Rejected (json_error 401 ''Access token required'')"
  by (simp add: bearer_scheme_def authenticateToken_def bearer_token_def at_index_def
      reject_all_def json_error_def)

text \<open>
  C2, amended. The request is answered 401 when the header is missing, when it has no
  space, and when the piece after its first space is empty. Otherwise that piece, up
  to the next space, is the token, whatever word precedes it: a token that fails
  verification is answered 403, and a verified one attaches \<open>{uid, email}\<close> of the
  decoded payload. A rejected request leaves the collection as it was, and an accepted
  one hands the handler the collection unchanged.
\<close>

theorem authenticateToken_outcomes:
  "authenticateToken jwt_verify None = Rejected (json_error 401 ''Access token required'') \<and>
   (CHR '' '' \<notin> set h \<longrightarrow>
      authenticateToken jwt_verify (Some h) =
        Rejected (json_error 401 ''Access token required'')) \<and>
   (CHR '' '' \<notin> set w \<longrightarrow>
      authenticateToken jwt_verify (Some (w @ CHR '' '' # rest)) =
        (let token = takeWhile (\<lambda>x. x \<noteq> CHR '' '') rest in
         if token = [] then Rejected (json_error 401 ''Access token required'')
         else (case jwt_verify token of
                 Inl err \<Rightarrow> Rejected (json_error 403 ''Invalid or expired token'')
               | Inr dec \<Rightarrow> Next \<lparr>uid = d_uid dec, email = d_email dec\<rparr>))) \<and>
   (\<forall>r. authenticateToken jwt_verify hdr = Rejected r \<longrightarrow>
      protected jwt_verify handler db hdr = (db, r)) \<and>
   (\<forall>u. authenticateToken jwt_verify hdr = Next u \<longrightarrow>
      protected jwt_verify handler db hdr = handler db u)"
proof (intro conjI impI allI)
  show "authenticateToken jwt_verify None = Rejected (json_error 401 ''Access token required'')"
    by (simp add: authenticateToken_def bearer_token_def)
next
  assume "CHR '' '' \<notin> set h"
  then show "authenticateToken jwt_verify (Some h) =
      Rejected (json_error 401 ''Access token required'')"
    by (simp add: authenticateToken_def bearer_token_no_space)
next
  assume "CHR '' '' \<notin> set w"
  then show "authenticateToken jwt_verify (Some (w @ CHR '' '' # rest)) =
        (let token = takeWhile (\<lambda>x. x \<noteq> CHR '' '') rest in
         if token = [] then Rejected (json_error 401 ''Access token required'')
         else (case jwt_verify token of
                 Inl err \<Rightarrow> Rejected (json_error 403 ''Invalid or expired token'')
               | Inr dec \<Rightarrow> Next \<lparr>uid = d_uid dec, email = d_email dec\<rparr>))"
    by (simp add: authenticateToken_def bearer_token_second Let_def)
next
  fix r
  assume "authenticateToken jwt_verify hdr = Rejected r"
  then show "protected jwt_verify handler db hdr = (db, r)"
    by (simp add: protected_def)
next
  fix u
  assume "authenticateToken jwt_verify hdr = Next u"
  then show "protected jwt_verify handler db hdr = handler db u"
    by (simp add: protected_def)
qed

theorem authenticateToken_outcomes_witness:
  "CHR '' '' \<notin> set ''Bearer'' \<and>
   authenticateToken accept_good (Some ''Bearer'') =
     Rejected (json_error 401 ''Access token required'') \<and>
   authenticateToken accept_good (Some ''Bearer good'') =
     Next \<lparr>uid = JStr ''u1'', email = JStr ''a@x.com''\<rparr> \<and>
   authenticateToken accept_good (Some ''Token good'') =
     Next \<lparr>uid = JStr ''u1'', email = JStr ''a@x.com''\<rparr> \<and>
   authenticateToken accept_good (Some ''Bearer bad'') =
     Rejected (json_error 403 ''Invalid or expired token'') \<and>
   protected accept_good handler_ex db_ex (Some ''Bearer bad'') =
     (db_ex, json_error 403 ''Invalid or expired token'')"
  using authenticateToken_outcomes [where jwt_verify = accept_good and h = "''Bearer''"
      and w = "''Bearer''" and rest = "''good''"]
    authenticateToken_outcomes [where jwt_verify = accept_good and w = "''Token''"
      and rest = "''good''"]
    authenticateToken_outcomes [where jwt_verify = accept_good and w = "''Bearer''"
      and rest = "''bad''" and hdr = "Some ''Bearer bad''" and db = db_ex
      and handler = handler_ex]
  by (simp add: accept_good_def)


section \<open>Derived queries of a plan\<close>

text \<open>
  C4. \<open>daysRemaining\<close> is null when the plan's \<open>subscriptionEnd\<close> is null; for an end
  that is the instant \<open>e\<close> it is \<open>max(0, ceil((e - now) / 1 day))\<close>, so that a plan
  expiring in 30 minutes has 1 day remaining, not 0. The stats handler answers with this
  value for the stored plan.
\<close>

theorem days_remaining_ceiling:
  "daysRemaining dateValue JNull now = DaysNull \<and>
   (truthy v \<and> dateValue v = Some e \<longrightarrow>
      daysRemaining dateValue v now = Days (max 0 \<lceil>real_of_int (e - now) / 86400000\<rceil>) \<and>
      (e - now = 30 * 60 * 1000 \<longrightarrow> daysRemaining dateValue v now = Days 1)) \<and>
   (doc_ref (uid user) = Some k \<and> db k = Some userData \<and>
    js_prop userData ''plan'' = JObj plan \<longrightarrow>
      js_prop (payload (get_stats dateValue db user now now')) ''daysRemaining'' =
        days_json (daysRemaining dateValue (js_prop plan ''subscriptionEnd'') now))"
proof (intro conjI impI)
  show "daysRemaining dateValue JNull now = DaysNull"
    by (simp add: daysRemaining_def)
next
  assume "truthy v \<and> dateValue v = Some e"
  then show "daysRemaining dateValue v now = Days (max 0 \<lceil>real_of_int (e - now) / 86400000\<rceil>)"
    by (simp add: daysRemaining_def Let_def)
next
  assume h: "truthy v \<and> dateValue v = Some e" and half_hour: "e - now = 30 * 60 * 1000"
  have "daysRemaining dateValue v now = Days (max 0 (- ((- (e - now)) div 86400000)))"
    using h by (simp add: daysRemaining_int)
  also have "\<dots> = Days 1"
    by (simp add: half_hour)
  finally show "daysRemaining dateValue v now = Days 1" .
next
  assume "doc_ref (uid user) = Some k \<and> db k = Some userData \<and>
    js_prop userData ''plan'' = JObj plan"
  then have "get_stats dateValue db user now now' =
      \<lparr>code = 200,
       payload =
         [(''planType'', js_prop plan ''type''),
          (''planStatus'', js_prop plan ''status''),
          (''daysRemaining'',
             days_json (daysRemaining dateValue (js_prop plan ''subscriptionEnd'') now)),
          (''isExpired'', JBool (isExpired dateValue (js_prop plan ''subscriptionEnd'') now')),
          (''memberSince'', js_prop userData ''createdAt'')]\<rparr>"
    by (simp add: get_stats_payload)
  then show "js_prop (payload (get_stats dateValue db user now now')) ''daysRemaining'' =
        days_json (daysRemaining dateValue (js_prop plan ''subscriptionEnd'') now)"
    by (simp add: js_prop_def)
qed

theorem days_remaining_ceiling_witness:
  "truthy (JStr ''1970-01-01T00:30:00.000Z'') \<and>
   dateValue_ex (JStr ''1970-01-01T00:30:00.000Z'') = Some 1800000 \<and>
   daysRemaining dateValue_ex (JStr ''1970-01-01T00:30:00.000Z'') 0 = Days 1 \<and>
   daysRemaining dateValue_ex JNull 0 = DaysNull \<and>
   doc_ref (uid user_ex) = Some ''u1'' \<and>
   js_prop (payload (get_stats dateValue_ex db_ex user_ex 0 0)) ''daysRemaining'' = JNum 7"
proof -
  have dv: "dateValue_ex (JStr ''1970-01-01T00:30:00.000Z'') = Some 1800000"
    by (simp add: iso_table_def)
  have dv7: "dateValue_ex (JStr ''1970-01-08T00:00:00.000Z'') = Some 604800000"
    by (simp add: iso_table_def)
  have ref: "doc_ref (uid user_ex) = Some ''u1''"
    by (simp add: user_ex_def)
  have seven: "daysRemaining dateValue_ex (JStr ''1970-01-08T00:00:00.000Z'') 0 = Days 7"
    using daysRemaining_int [of "JStr ''1970-01-08T00:00:00.000Z''" dateValue_ex 604800000 0] dv7
    by simp
  note inst = days_remaining_ceiling [where dateValue = dateValue_ex
      and v = "JStr ''1970-01-01T00:30:00.000Z''" and e = 1800000 and now = 0 and now' = 0
      and user = user_ex and k = "''u1''" and db = db_ex
      and userData = "newUserData toISOString_ex user_ex (JStr ''trial'') 0 0"
      and plan = "[(''type'', JStr ''trial''),
           (''status'', JStr ''active''),
           (''subscriptionStart'', JStr ''1970-01-01T00:00:00.000Z''),
           (''subscriptionEnd'', JStr ''1970-01-08T00:00:00.000Z''),
           (''lastUpdated'', JStr ''1970-01-01T00:00:00.000Z'')]"]
  have half_hour: "\<lceil>(1::real) / 48\<rceil> = 1"
    by (rule ceiling_unique) simp_all
  show ?thesis
    using inst dv ref db_ex_u1 plan_of_db_ex seven
    by (simp add: js_prop_def half_hour)
qed

text \<open>
  C5. \<open>isExpired\<close> is false when the plan's \<open>subscriptionEnd\<close> is null; for an end
  that is the instant \<open>e\<close> it is \<open>now > e\<close>, strictly: a plan whose end is this very
  instant is not expired, one whose end was a second ago is. The stats handler answers
  with this value for the stored plan.
\<close>

theorem is_expired_strict:
  "isExpired dateValue JNull now' = False \<and>
   (truthy v \<and> dateValue v = Some e \<longrightarrow>
      isExpired dateValue v now' = (now' > e) \<and>
      (e = now' \<longrightarrow> \<not> isExpired dateValue v now') \<and>
      (e = now' - 1000 \<longrightarrow> isExpired dateValue v now')) \<and>
   (doc_ref (uid user) = Some k \<and> db k = Some userData \<and>
    js_prop userData ''plan'' = JObj plan \<longrightarrow>
      js_prop (payload (get_stats dateValue db user now now')) ''isExpired'' =
        JBool (isExpired dateValue (js_prop plan ''subscriptionEnd'') now'))"
proof (intro conjI impI)
  show "isExpired dateValue JNull now' = False"
    by (simp add: isExpired_def)
next
  assume "truthy v \<and> dateValue v = Some e"
  then show "isExpired dateValue v now' = (now' > e)"
    by (simp add: isExpired_def)
next
  assume "truthy v \<and> dateValue v = Some e" and "e = now'"
  then show "\<not> isExpired dateValue v now'"
    by (simp add: isExpired_def)
next
  assume "truthy v \<and> dateValue v = Some e" and "e = now' - 1000"
  then show "isExpired dateValue v now'"
    by (simp add: isExpired_def)
next
  assume "doc_ref (uid user) = Some k \<and> db k = Some userData \<and>
    js_prop userData ''plan'' = JObj plan"
  then have "get_stats dateValue db user now now' =
      \<lparr>code = 200,
       payload =
         [(''planType'', js_prop plan ''type''),
          (''planStatus'', js_prop plan ''status''),
          (''daysRemaining'',
             days_json (daysRemaining dateValue (js_prop plan ''subscriptionEnd'') now)),
          (''isExpired'', JBool (isExpired dateValue (js_prop plan ''subscriptionEnd'') now')),
          (''memberSince'', js_prop userData ''createdAt'')]\<rparr>"
    by (simp add: get_stats_payload)
  then show "js_prop (payload (get_stats dateValue db user now now')) ''isExpired'' =
        JBool (isExpired dateValue (js_prop plan ''subscriptionEnd'') now')"
    by (simp add: js_prop_def)
qed

theorem is_expired_strict_witness:
  "truthy (JStr ''1970-01-01T00:00:01.000Z'') \<and>
   dateValue_ex (JStr ''1970-01-01T00:00:01.000Z'') = Some 1000 \<and>
   isExpired dateValue_ex (JStr ''1970-01-01T00:00:01.000Z'') 1000 = False \<and>
   dateValue_ex (JStr ''1970-01-01T00:00:00.000Z'') = Some (1000 - 1000) \<and>
   isExpired dateValue_ex (JStr ''1970-01-01T00:00:00.000Z'') 1000 = True \<and>
   isExpired dateValue_ex JNull 1000 = False \<and>
   js_prop (payload (get_stats dateValue_ex db_ex user_ex 0 604801000)) ''isExpired'' = JBool True"
proof -
  have dv1: "dateValue_ex (JStr ''1970-01-01T00:00:01.000Z'') = Some 1000"
    by (simp add: iso_table_def)
  have dv0: "dateValue_ex (JStr ''1970-01-01T00:00:00.000Z'') = Some 0"
    by (simp add: iso_table_def)
  have dv7: "dateValue_ex (JStr ''1970-01-08T00:00:00.000Z'') = Some 604800000"
    by (simp add: iso_table_def)
  have ref: "doc_ref (uid user_ex) = Some ''u1''"
    by (simp add: user_ex_def)
  note equal = is_expired_strict [where dateValue = dateValue_ex
      and v = "JStr ''1970-01-01T00:00:01.000Z''" and e = 1000 and now' = 1000]
  note second = is_expired_strict [where dateValue = dateValue_ex
      and v = "JStr ''1970-01-01T00:00:00.000Z''" and e = 0 and now' = 1000]
  note stats = is_expired_strict [where dateValue = dateValue_ex
      and v = "JStr ''1970-01-08T00:00:00.000Z''" and e = 604800000 and now = 0
      and now' = 604801000
      and user = user_ex and k = "''u1''" and db = db_ex
      and userData = "newUserData toISOString_ex user_ex (JStr ''trial'') 0 0"
      and plan = "[(''type'', JStr ''trial''),
           (''status'', JStr ''active''),
           (''subscriptionStart'', JStr ''1970-01-01T00:00:00.000Z''),
           (''subscriptionEnd'', JStr ''1970-01-08T00:00:00.000Z''),
           (''lastUpdated'', JStr ''1970-01-01T00:00:00.000Z'')]"]
  show ?thesis
    using equal second stats dv0 dv1 dv7 ref db_ex_u1 plan_of_db_ex
    by (simp add: js_prop_def)
qed


section \<open>Plans at creation and at a plan change\<close>






text \<open>
  C10. The create handler does not validate \<open>planType\<close>: no request is answered 400,
  and for every string \<open>s\<close>, a create call for a user not yet stored is answered 201 and
  stores a plan of type \<open>s\<close>, whose \<open>subscriptionEnd\<close> is null unless \<open>s\<close> is
  \<^verbatim>\<open>trial\<close>.
\<close>

theorem create_any_planType:
  "code (snd (post_create toISOString db user body now now')) \<noteq> 400 \<and>
   (doc_ref (uid user) = Some k \<and> db k = None \<and> js_prop body ''planType'' = JStr s \<longrightarrow>
      (\<exists>d. post_create toISOString db user body now now' = (db(k \<mapsto> d), created d) \<and>
           code (created d) = 201 \<and>
           get_prop (js_prop d ''plan'') ''type'' = Some (JStr s) \<and>
           (s \<noteq> ''trial'' \<longrightarrow> get_prop (js_prop d ''plan'') ''subscriptionEnd'' = Some JNull)))"
  by (auto simp add: post_create_def create_planType_def doc_get_def doc_set_def created_def
      json_error_def newUserData_def js_prop_def Let_def split: option.splits)

theorem create_any_planType_witness:
  "doc_ref (uid user_ex) = Some ''u1'' \<and> (Map.empty :: store) ''u1'' = None \<and>
   js_prop [(''planType'', JStr ''enterprise'')] ''planType'' = JStr ''enterprise'' \<and>
   ''enterprise'' \<noteq> ''trial'' \<and>
   (\<exists>d. post_create toISOString_ex Map.empty user_ex [(''planType'', JStr ''enterprise'')] 0 0 =
          (Map.empty(''u1'' \<mapsto> d), created d) \<and>
        code (created d) = 201 \<and>
        get_prop (js_prop d ''plan'') ''type'' = Some (JStr ''enterprise'') \<and>
        get_prop (js_prop d ''plan'') ''subscriptionEnd'' = Some JNull)"
  using create_any_planType [where toISOString = toISOString_ex and db = Map.empty
      and user = user_ex and body = "[(''planType'', JStr ''enterprise'')]" and now = 0
      and now' = 0 and k = "''u1''" and s = "''enterprise''"]
  by (simp add: user_ex_def js_prop_def)


text \<open>
  C7. A plan change with a valid \<open>planType\<close> on a stored user is answered 200 and
  stores a whole new plan in place of the old one: \<open>status\<close> is \<^verbatim>\<open>active\<close>,
  \<open>subscriptionStart\<close> and \<open>lastUpdated\<close> are now, and \<open>subscriptionEnd\<close> and
  \<open>stripeCustomerId\<close> are those of the request, null when the request has none. Nothing
  of the plan stored before enters the new one.
\<close>

theorem change_plan_replaces:
  assumes "js_prop body ''planType'' \<in> {JStr ''free'', JStr ''trial'', JStr ''pro'', JStr ''plus''}"
    and "doc_ref (uid user) = Some k" and "db k = Some d"
  shows "\<exists>d'. fst (put_plan toISOString db user body now) = db(k \<mapsto> d') \<and>
      code (snd (put_plan toISOString db user body now)) = 200 \<and>
      js_prop d' ''plan'' =
        JObj [(''type'', js_prop body ''planType''),
              (''status'', JStr ''active''),
              (''subscriptionStart'', JStr (toISOString now)),
              (''subscriptionEnd'',
                 (if truthy (js_prop body ''subscriptionEnd'')
                  then js_prop body ''subscriptionEnd'' else JNull)),
              (''stripeCustomerId'',
                 (if truthy (js_prop body ''stripeCustomerId'')
                  then js_prop body ''stripeCustomerId'' else JNull)),
              (''lastUpdated'', JStr (toISOString now))]"
proof -
  have valid: "js_prop body ''planType'' \<in> set validPlans"
    using assms(1) by (simp add: validPlans_def)
  let ?d' = "AList.merge d [(''plan'', JObj (updatedPlan toISOString body now)),
                            (''lastLogin'', JStr (toISOString now))]"
  have "fst (put_plan toISOString db user body now) = db(k \<mapsto> ?d')"
    and "code (snd (put_plan toISOString db user body now)) = 200"
    using put_plan_success [where db = db, OF valid assms(2) assms(3)]
    by (simp_all del: merge_simps)
  moreover have "js_prop ?d' ''plan'' = JObj (updatedPlan toISOString body now)"
    by (simp add: js_prop_merge del: merge_simps)
  ultimately show ?thesis
    by (intro exI [of _ ?d']) (simp add: updatedPlan_def js_or_def del: merge_simps)
qed

theorem change_plan_replaces_witness:
  "js_prop [(''planType'', JStr ''pro''), (''stripeCustomerId'', JStr ''cus_123'')] ''planType''
     \<in> {JStr ''free'', JStr ''trial'', JStr ''pro'', JStr ''plus''} \<and>
   doc_ref (uid user_ex) = Some ''u1'' \<and>
   db_ex ''u1'' = Some (newUserData toISOString_ex user_ex (JStr ''trial'') 0 0) \<and>
   (\<exists>d'. fst (put_plan toISOString_ex db_ex user_ex
                 [(''planType'', JStr ''pro''), (''stripeCustomerId'', JStr ''cus_123'')] 1000) =
            db_ex(''u1'' \<mapsto> d') \<and>
         js_prop d' ''plan'' =
           JObj [(''type'', JStr ''pro''),
                 (''status'', JStr ''active''),
                 (''subscriptionStart'', JStr ''1970-01-01T00:00:01.000Z''),
                 (''subscriptionEnd'', JNull),
                 (''stripeCustomerId'', JStr ''cus_123''),
                 (''lastUpdated'', JStr ''1970-01-01T00:00:01.000Z'')])"
proof -
  have ref: "doc_ref (uid user_ex) = Some ''u1''"
    by (simp add: user_ex_def)
  have valid: "js_prop [(''planType'', JStr ''pro''), (''stripeCustomerId'', JStr ''cus_123'')]
      ''planType'' \<in> {JStr ''free'', JStr ''trial'', JStr ''pro'', JStr ''plus''}"
    by (simp add: js_prop_def)
  have "\<exists>d'. fst (put_plan toISOString_ex db_ex user_ex
                 [(''planType'', JStr ''pro''), (''stripeCustomerId'', JStr ''cus_123'')] 1000) =
            db_ex(''u1'' \<mapsto> d') \<and>
         js_prop d' ''plan'' =
           JObj [(''type'', JStr ''pro''),
                 (''status'', JStr ''active''),
                 (''subscriptionStart'', JStr ''1970-01-01T00:00:01.000Z''),
                 (''subscriptionEnd'', JNull),
                 (''stripeCustomerId'', JStr ''cus_123''),
                 (''lastUpdated'', JStr ''1970-01-01T00:00:01.000Z'')]"
    using change_plan_replaces [where db = db_ex and toISOString = toISOString_ex
      and now = 1000, OF valid ref db_ex_u1]
    by (auto simp add: js_prop_def toISOString_ex_def iso_table_def)
  then show ?thesis
    using valid ref db_ex_u1 by simp
qed


section \<open>Updating a stored user\<close>

text \<open>
  C3. An update for a user with no stored document fails with \<open>NotFound\<close>, for the
  profile update and for the plan update alike; the handler answers 500 and the
  collection is what it was. For a stored user the profile update writes \<open>lastLogin\<close>
  and those of \<open>displayName\<close> and \<open>photoURL\<close> that the request supplies, the plan
  update writes \<open>lastLogin\<close> and \<open>plan\<close>, and every other field of the document is
  left as it was.
\<close>

theorem update_not_found_or_merge:
  assumes "doc_ref (uid user) = Some k"
  shows
   "(db k = None \<longrightarrow>
       doc_update db k (profile_updates toISOString body now) = Inl NotFound \<and>
       put_profile toISOString db user body now =
         (db, json_error 500 ''Failed to update profile'') \<and>
       (js_prop body ''planType'' \<in> set validPlans \<longrightarrow>
          doc_update db k [(''plan'', JObj (updatedPlan toISOString body now)),
                           (''lastLogin'', JStr (toISOString now))] = Inl NotFound \<and>
          put_plan toISOString db user body now =
            (db, json_error 500 ''Failed to update plan''))) \<and>
    (db k = Some d \<longrightarrow>
       (\<exists>d'. fst (put_profile toISOString db user body now) = db(k \<mapsto> d') \<and>
             code (snd (put_profile toISOString db user body now)) = 200 \<and>
             map_of d' ''lastLogin'' = Some (JStr (toISOString now)) \<and>
             map_of d' ''displayName'' =
               (if js_prop body ''displayName'' = JUndefined then map_of d ''displayName''
                else Some (js_prop body ''displayName'')) \<and>
             map_of d' ''photoURL'' =
               (if js_prop body ''photoURL'' = JUndefined then map_of d ''photoURL''
                else Some (js_prop body ''photoURL'')) \<and>
             (\<forall>fld. fld \<notin> {''lastLogin'', ''displayName'', ''photoURL''} \<longrightarrow>
                map_of d' fld = map_of d fld)) \<and>
       (js_prop body ''planType'' \<in> set validPlans \<longrightarrow>
          (\<exists>d'. fst (put_plan toISOString db user body now) = db(k \<mapsto> d') \<and>
                code (snd (put_plan toISOString db user body now)) = 200 \<and>
                map_of d' ''lastLogin'' = Some (JStr (toISOString now)) \<and>
                map_of d' ''plan'' = Some (JObj (updatedPlan toISOString body now)) \<and>
                (\<forall>fld. fld \<notin> {''lastLogin'', ''plan''} \<longrightarrow> map_of d' fld = map_of d fld))))"
proof (intro conjI impI)
  assume "db k = None"
  then show "doc_update db k (profile_updates toISOString body now) = Inl NotFound"
    by (simp add: doc_update_def)
next
  assume "db k = None"
  then show "put_profile toISOString db user body now =
      (db, json_error 500 ''Failed to update profile'')"
    using assms by (rule put_profile_missing [rotated])
next
  assume "db k = None"
  then show "doc_update db k [(''plan'', JObj (updatedPlan toISOString body now)),
                           (''lastLogin'', JStr (toISOString now))] = Inl NotFound"
    by (simp add: doc_update_def)
next
  assume "db k = None" and "js_prop body ''planType'' \<in> set validPlans"
  then show "put_plan toISOString db user body now =
      (db, json_error 500 ''Failed to update plan'')"
    using assms by (simp add: put_plan_missing)
next
  assume stored: "db k = Some d"
  let ?d' = "AList.merge d (profile_updates toISOString body now)"
  have run: "put_profile toISOString db user body now =
      (db(k \<mapsto> ?d'),
       \<lparr>code = 200, payload = [(''message'', JStr ''Profile updated successfully'')]\<rparr>)"
    using assms stored by (rule put_profile_success)
  show "\<exists>d'. fst (put_profile toISOString db user body now) = db(k \<mapsto> d') \<and>
             code (snd (put_profile toISOString db user body now)) = 200 \<and>
             map_of d' ''lastLogin'' = Some (JStr (toISOString now)) \<and>
             map_of d' ''displayName'' =
               (if js_prop body ''displayName'' = JUndefined then map_of d ''displayName''
                else Some (js_prop body ''displayName'')) \<and>
             map_of d' ''photoURL'' =
               (if js_prop body ''photoURL'' = JUndefined then map_of d ''photoURL''
                else Some (js_prop body ''photoURL'')) \<and>
             (\<forall>fld. fld \<notin> {''lastLogin'', ''displayName'', ''photoURL''} \<longrightarrow>
                map_of d' fld = map_of d fld)"
    by (intro exI [of _ ?d'])
       (simp add: run map_of_merge map_of_profile_updates del: merge_simps)
next
  assume stored: "db k = Some d" and valid: "js_prop body ''planType'' \<in> set validPlans"
  let ?d' = "AList.merge d [(''plan'', JObj (updatedPlan toISOString body now)),
                            (''lastLogin'', JStr (toISOString now))]"
  have run: "put_plan toISOString db user body now =
      (db(k \<mapsto> ?d'),
       \<lparr>code = 200,
        payload = [(''message'', JStr ''Plan updated successfully''),
                   (''plan'', JObj (updatedPlan toISOString body now))]\<rparr>)"
    using valid assms stored by (rule put_plan_success)
  show "\<exists>d'. fst (put_plan toISOString db user body now) = db(k \<mapsto> d') \<and>
                code (snd (put_plan toISOString db user body now)) = 200 \<and>
                map_of d' ''lastLogin'' = Some (JStr (toISOString now)) \<and>
                map_of d' ''plan'' = Some (JObj (updatedPlan toISOString body now)) \<and>
                (\<forall>fld. fld \<notin> {''lastLogin'', ''plan''} \<longrightarrow> map_of d' fld = map_of d fld)"
    by (intro exI [of _ ?d']) (simp add: run map_of_merge del: merge_simps)
qed

theorem update_not_found_or_merge_witness:
  "doc_ref (uid user_ex) = Some ''u1'' \<and> (Map.empty :: store) ''u1'' = None \<and>
   put_profile toISOString_ex Map.empty user_ex [(''displayName'', JStr ''Ann'')] 1000 =
     (Map.empty, json_error 500 ''Failed to update profile'') \<and>
   db_ex ''u1'' = Some (newUserData toISOString_ex user_ex (JStr ''trial'') 0 0) \<and>
   (\<exists>d'. fst (put_profile toISOString_ex db_ex user_ex [(''displayName'', JStr ''Ann'')] 1000) =
            db_ex(''u1'' \<mapsto> d') \<and>
         map_of d' ''lastLogin'' = Some (JStr ''1970-01-01T00:00:01.000Z'') \<and>
         map_of d' ''displayName'' = Some (JStr ''Ann'') \<and>
         map_of d' ''photoURL'' = Some JNull \<and>
         map_of d' ''createdAt'' = Some (JStr ''1970-01-01T00:00:00.000Z'') \<and>
         map_of d' ''plan'' =
           map_of (newUserData toISOString_ex user_ex (JStr ''trial'') 0 0) ''plan'')"
proof -
  have ref: "doc_ref (uid user_ex) = Some ''u1''"
    by (simp add: user_ex_def)
  note missing = update_not_found_or_merge [OF ref, where db = Map.empty
      and toISOString = toISOString_ex and body = "[(''displayName'', JStr ''Ann'')]"
      and now = 1000]
  note stored = update_not_found_or_merge [OF ref, where db = db_ex
      and toISOString = toISOString_ex and body = "[(''displayName'', JStr ''Ann'')]"
      and now = 1000 and d = "newUserData toISOString_ex user_ex (JStr ''trial'') 0 0"]
  from stored db_ex_u1 obtain d' where
    d': "fst (put_profile toISOString_ex db_ex user_ex [(''displayName'', JStr ''Ann'')] 1000) =
           db_ex(''u1'' \<mapsto> d')"
        "map_of d' ''lastLogin'' = Some (JStr (toISOString_ex 1000))"
        "map_of d' ''displayName'' =
           (if js_prop [(''displayName'', JStr ''Ann'')] ''displayName'' = JUndefined
            then map_of (newUserData toISOString_ex user_ex (JStr ''trial'') 0 0) ''displayName''
            else Some (js_prop [(''displayName'', JStr ''Ann'')] ''displayName''))"
        "map_of d' ''photoURL'' =
           (if js_prop [(''displayName'', JStr ''Ann'')] ''photoURL'' = JUndefined
            then map_of (newUserData toISOString_ex user_ex (JStr ''trial'') 0 0) ''photoURL''
            else Some (js_prop [(''displayName'', JStr ''Ann'')] ''photoURL''))"
        "\<forall>fld. fld \<notin> {''lastLogin'', ''displayName'', ''photoURL''} \<longrightarrow>
           map_of d' fld = map_of (newUserData toISOString_ex user_ex (JStr ''trial'') 0 0) fld"
    by blast
  from d'(5) have untouched:
    "map_of d' ''createdAt'' =
       map_of (newUserData toISOString_ex user_ex (JStr ''trial'') 0 0) ''createdAt''"
    "map_of d' ''plan'' = map_of (newUserData toISOString_ex user_ex (JStr ''trial'') 0 0) ''plan''"
    by simp_all
  have "\<exists>d'. fst (put_profile toISOString_ex db_ex user_ex [(''displayName'', JStr ''Ann'')] 1000) =
            db_ex(''u1'' \<mapsto> d') \<and>
         map_of d' ''lastLogin'' = Some (JStr ''1970-01-01T00:00:01.000Z'') \<and>
         map_of d' ''displayName'' = Some (JStr ''Ann'') \<and>
         map_of d' ''photoURL'' = Some JNull \<and>
         map_of d' ''createdAt'' = Some (JStr ''1970-01-01T00:00:00.000Z'') \<and>
         map_of d' ''plan'' =
           map_of (newUserData toISOString_ex user_ex (JStr ''trial'') 0 0) ''plan''"
    using d'(1-4) untouched
    by (intro exI [of _ d'])
       (simp add: js_prop_def newUserData_def toISOString_ex_def iso_table_def)
  then show ?thesis
    using missing ref db_ex_u1 by simp
qed


section \<open>Tokens\<close>

text \<open>
  C9. For all claims and every time to live above 0, a token issued at \<open>now\<close> and
  verified under the same secret at a time before its expiry gives back the identity it
  was issued for. So a token of the generate-token handler, sent as
  \<^verbatim>\<open>Authorization: Bearer <token>\<close> within its seven days, attaches to the request
  the \<open>uid\<close> and \<open>email\<close> the handler was called with.
\<close>

theorem token_round_trip:
  "(0 < ttl \<and> t < now + ttl \<longrightarrow>
      verify mac secret t (issue mac secret u m now ttl) = Inr \<lparr>d_uid = u, d_email = m\<rparr>) \<and>
   (truthy (js_prop body ''uid'') \<and> truthy (js_prop body ''email'') \<and> t < now + expiresIn \<and>
    s \<noteq> [] \<and> CHR '' '' \<notin> set s \<and>
    parse s = Some (issue mac secret (js_prop body ''uid'') (js_prop body ''email'') now expiresIn)
    \<longrightarrow>
      generate_token mac secret body now =
        GenToken (issue mac secret (js_prop body ''uid'') (js_prop body ''email'') now expiresIn) \<and>
      authenticateToken (verify_string parse mac secret t) (Some (''Bearer '' @ s)) =
        Next \<lparr>uid = js_prop body ''uid'', email = js_prop body ''email''\<rparr>)"
proof (intro conjI impI)
  assume "0 < ttl \<and> t < now + ttl"
  then show "verify mac secret t (issue mac secret u m now ttl) = Inr \<lparr>d_uid = u, d_email = m\<rparr>"
    by (simp add: verify_issue)
next
  assume "truthy (js_prop body ''uid'') \<and> truthy (js_prop body ''email'') \<and> t < now + expiresIn \<and>
    s \<noteq> [] \<and> CHR '' '' \<notin> set s \<and>
    parse s = Some (issue mac secret (js_prop body ''uid'') (js_prop body ''email'') now expiresIn)"
  then show "generate_token mac secret body now =
        GenToken (issue mac secret (js_prop body ''uid'') (js_prop body ''email'') now expiresIn)"
    by (simp add: generate_token_def Let_def)
next
  assume h: "truthy (js_prop body ''uid'') \<and> truthy (js_prop body ''email'') \<and> t < now + expiresIn \<and>
    s \<noteq> [] \<and> CHR '' '' \<notin> set s \<and>
    parse s = Some (issue mac secret (js_prop body ''uid'') (js_prop body ''email'') now expiresIn)"
  have "bearer_token (Some (''Bearer '' @ s)) = Some (takeWhile (\<lambda>x. x \<noteq> CHR '' '') s)"
    using bearer_token_second [of "''Bearer''" s] by simp
  also have "takeWhile (\<lambda>x. x \<noteq> CHR '' '') s = s"
    using h by (auto simp add: takeWhile_eq_all_conv)
  finally have tok: "bearer_token (Some (''Bearer '' @ s)) = Some s" .
  show "authenticateToken (verify_string parse mac secret t) (Some (''Bearer '' @ s)) =
        Next \<lparr>uid = js_prop body ''uid'', email = js_prop body ''email''\<rparr>"
    unfolding authenticateToken_def tok using h
    by (simp add: verify_string_def verify_issue)
qed

theorem token_round_trip_witness:
  "(0::int) < expiresIn \<and> (1000::int) < 0 + expiresIn \<and>
   truthy (js_prop [(''uid'', JStr ''u1''), (''email'', JStr ''a@x.com'')] ''uid'') \<and>
   truthy (js_prop [(''uid'', JStr ''u1''), (''email'', JStr ''a@x.com'')] ''email'') \<and>
   CHR '' '' \<notin> set ''tok'' \<and>
   verify mac_ex ''secret'' 1000 (issue mac_ex ''secret'' (JStr ''u1'') (JStr ''a@x.com'') 0 expiresIn) =
     Inr \<lparr>d_uid = JStr ''u1'', d_email = JStr ''a@x.com''\<rparr> \<and>
   generate_token mac_ex ''secret'' [(''uid'', JStr ''u1''), (''email'', JStr ''a@x.com'')] 0 =
     GenToken (issue mac_ex ''secret'' (JStr ''u1'') (JStr ''a@x.com'') 0 expiresIn) \<and>
   authenticateToken (verify_string parse_ex mac_ex ''secret'' 1000) (Some ''Bearer tok'') =
     Next \<lparr>uid = JStr ''u1'', email = JStr ''a@x.com''\<rparr>"
  using token_round_trip [where mac = mac_ex and secret = "''secret''" and t = 1000 and now = 0
      and ttl = expiresIn and u = "JStr ''u1''" and m = "JStr ''a@x.com''"
      and body = "[(''uid'', JStr ''u1''), (''email'', JStr ''a@x.com'')]"
      and s = "''tok''" and parse = parse_ex]
  by (simp add: js_prop_def expiresIn_def parse_ex_def)

end
